theory Spec2Isabelle
  imports Complex_Main
begin

section \<open>Values of the JavaScript runtime\<close>

text \<open>
  Response bodies arrive from the network, so they are modelled untyped: a parsed JSON
  value, plus \<open>Undefined\<close> for the result of reading a property that is not there.
  An object is the list of its properties (keys distinct, as a parsed body has them).
  Numbers are reals: the service does no arithmetic on them, it only compares an array
  length with zero and renders coordinates into a path.
\<close>

datatype js_value =
    Undefined
  | Null
  | Bool bool
  | Num real
  | Str string
  | Arr "js_value list"
  | Obj "(string \<times> js_value) list"

text \<open>
  The error of a rejected axios call: \<open>error.message\<close>, \<open>error.code\<close> and
  \<open>error.response?.status\<close>. An error has a status exactly when the provider answered.
\<close>

record axios_error =
  message :: string
  code :: "string option"
  status :: "nat option"

datatype js_error =
    Error string
  | TypeError string
  | AxiosError axios_error

fun error_message :: "js_error \<Rightarrow> string" where
  "error_message (Error m) = m"
| "error_message (TypeError m) = m"
| "error_message (AxiosError e) = message e"

text \<open>\<open>error.response?.status\<close>: only an axios error has a response.\<close>

fun error_status :: "js_error \<Rightarrow> nat option" where
  "error_status (Error m) = None"
| "error_status (TypeError m) = None"
| "error_status (AxiosError e) = status e"

text \<open>
  What the code takes from its platform and does not define itself: the rendering of a
  number in a template string or by \<open>Array.prototype.join\<close>, the coercion of a
  non-number to a number (\<open>None\<close> is NaN), the list of error codes that the retry
  library holds to be unsafe to retry, and the random share that the library adds to the
  wait before the retry of a given number.
\<close>

record platform =
  numberToString :: "real \<Rightarrow> string"
  toNumber :: "js_value \<Rightarrow> real option"
  isRetryAllowed :: "axios_error \<Rightarrow> bool"
  jitter :: "nat \<Rightarrow> nat"

text \<open>The wording of the engine's TypeError for a property read on undefined or null.\<close>

definition cannot_read :: "string \<Rightarrow> string \<Rightarrow> js_error" where
  "cannot_read base name =
     TypeError (''Cannot read properties of '' @ base @ '' (reading '' @ [CHR 0x27] @ name @ [CHR 0x27] @ '')'')"

text \<open>
  \<open>v.name\<close> for the property names the service reads (\<open>features\<close>, \<open>length\<close>,
  \<open>properties\<close>, \<open>ele\<close>): a read on undefined or null throws, arrays and strings
  have a length, an object has the properties of its body, anything else gives undefined.
\<close>

fun get_prop :: "js_value \<Rightarrow> string \<Rightarrow> js_error + js_value" where
  "get_prop Undefined name = Inl (cannot_read ''undefined'' name)"
| "get_prop Null name = Inl (cannot_read ''null'' name)"
| "get_prop (Obj kvs) name = (case map_of kvs name of None \<Rightarrow> Inr Undefined | Some v \<Rightarrow> Inr v)"
| "get_prop (Arr xs) name = (if name = ''length'' then Inr (Num (real (length xs))) else Inr Undefined)"
| "get_prop (Str s) name = (if name = ''length'' then Inr (Num (real (length s))) else Inr Undefined)"
| "get_prop (Bool b) name = Inr Undefined"
| "get_prop (Num n) name = Inr Undefined"

text \<open>\<open>v[0]\<close>, the only index the service reads.\<close>

fun get_first :: "js_value \<Rightarrow> js_error + js_value" where
  "get_first Undefined = Inl (cannot_read ''undefined'' ''0'')"
| "get_first Null = Inl (cannot_read ''null'' ''0'')"
| "get_first (Arr xs) = (case xs of [] \<Rightarrow> Inr Undefined | x # _ \<Rightarrow> Inr x)"
| "get_first (Str s) = (case s of [] \<Rightarrow> Inr Undefined | c # _ \<Rightarrow> Inr (Str [c]))"
| "get_first (Obj kvs) = (case map_of kvs ''0'' of None \<Rightarrow> Inr Undefined | Some v \<Rightarrow> Inr v)"
| "get_first (Bool b) = Inr Undefined"
| "get_first (Num n) = Inr Undefined"

text \<open>\<open>v > 0\<close>: a comparison with NaN is false, null is 0, true is 1.\<close>

fun gt_zero :: "platform \<Rightarrow> js_value \<Rightarrow> bool" where
  "gt_zero plat (Num n) = (0 < n)"
| "gt_zero plat Undefined = False"
| "gt_zero plat Null = False"
| "gt_zero plat (Bool b) = b"
| "gt_zero plat v = (case toNumber plat v of None \<Rightarrow> False | Some n \<Rightarrow> 0 < n)"

text \<open>Sequencing of steps that may throw.\<close>

fun and_then :: "'e + 'a \<Rightarrow> ('a \<Rightarrow> 'e + 'b) \<Rightarrow> 'e + 'b" where
  "and_then (Inl e) f = Inl e"
| "and_then (Inr x) f = f x"

text \<open>\<open>Array.prototype.join\<close> on elements already rendered as strings.\<close>

fun join :: "string \<Rightarrow> string list \<Rightarrow> string" where
  "join sep [] = []"
| "join sep [x] = x"
| "join sep (x # y # ys) = x @ sep @ join sep (y # ys)"

text \<open>
  An argument whose declared type is an array: the service tests \<open>Array.isArray\<close> at
  run time, so the model keeps the case of a caller passing something else.
\<close>

datatype 'a js_arg = NotArray | IsArray "'a list"

section \<open>Requests, log events and the trace of a call\<close>

datatype param = PStr string | PNum nat

record request =
  url :: string
  params :: "(string \<times> param) list"

record response =
  data :: js_value

datatype level = Info | Warn | Err

text \<open>The structured metadata handed to the logger with a message.\<close>

datatype meta =
    MNum nat
  | MStr string
  | MCoords "(real \<times> real) list"
  | MUndefined

text \<open>
  Everything a call does besides returning: the requests it puts on the wire, the
  waits between attempts, and its calls of the logger, in order.
\<close>

datatype event =
    Sent request
  | Delay nat
  | Log level string "(string \<times> meta) list"

type_synonym 'a outcome = "event list \<times> (js_error + 'a)"

text \<open>
  The provider and the network: what the k-th attempt (from 0) of a request meets,
  a rejection with an axios error or a response.
\<close>

type_synonym transport = "request \<Rightarrow> nat \<Rightarrow> axios_error + response"

section \<open>The retry policy\<close>

record retry_config =
  retries :: nat
  retryDelay :: "nat \<Rightarrow> nat"
  retryCondition :: "axios_error \<Rightarrow> bool"
  onRetry :: "nat \<Rightarrow> axios_error \<Rightarrow> event list"

text \<open>The shared axios instance: the constructor installs the retry policy on it.\<close>

record axios_instance =
  retry :: "retry_config option"

text \<open>
  Modelled from the spec: \<open>isNetworkError\<close> of the axios-retry library, a dependency that
  is not part of the sources. The spec names the class (connection reset, DNS failure);
  the library's rule is written out: no response, an error code, not a cancelled or a
  timed-out request (code \<open>ECONNABORTED\<close>), and a code that is safe to retry.
\<close>

definition isNetworkError :: "platform \<Rightarrow> axios_error \<Rightarrow> bool" where
  "isNetworkError plat error =
     (status error = None
      \<and> code error \<noteq> None \<and> code error \<noteq> Some []
      \<and> code error \<noteq> Some ''ERR_CANCELED'' \<and> code error \<noteq> Some ''ECONNABORTED''
      \<and> isRetryAllowed plat error)"

text \<open>
  Modelled from the spec: \<open>isRetryableError\<close> of the axios-retry library, not part of the
  sources: not a timed-out request, and no response or a response with a status from
  500 to 599.
\<close>

definition isRetryableError :: "axios_error \<Rightarrow> bool" where
  "isRetryableError error =
     (code error \<noteq> Some ''ECONNABORTED''
      \<and> (case status error of None \<Rightarrow> True | Some s \<Rightarrow> 500 \<le> s \<and> s \<le> 599))"

text \<open>
  Modelled from the spec: \<open>isIdempotentRequestError\<close> of the axios-retry library, not part
  of the sources: a retryable error of a request with an idempotent method. Every
  request of the service is made by \<open>axios.get\<close>, and GET is such a method.
\<close>

definition isIdempotentRequestError :: "axios_error \<Rightarrow> bool" where
  "isIdempotentRequestError error = isRetryableError error"

text \<open>
  Modelled from the spec: \<open>isNetworkOrIdempotentRequestError\<close> of the axios-retry
  library, not part of the sources: the one or the other of the two classes.
\<close>

definition isNetworkOrIdempotentRequestError :: "platform \<Rightarrow> axios_error \<Rightarrow> bool" where
  "isNetworkOrIdempotentRequestError plat error =
     (isNetworkError plat error \<or> isIdempotentRequestError error)"

text \<open>
  Modelled from the spec: \<open>exponentialDelay\<close> of the axios-retry library, not part of the
  sources. The spec asks for exponential backoff; the library waits 100 ms times two to
  the number of the retry, and a random share on top. The wait is in milliseconds.
\<close>

definition exponentialDelay :: "platform \<Rightarrow> nat \<Rightarrow> nat" where
  "exponentialDelay plat retryNumber = 2 ^ retryNumber * 100 + jitter plat retryNumber"

text \<open>The object literal passed to \<open>axiosRetry\<close> in the constructor.\<close>

definition mapbox_retry_config :: "platform \<Rightarrow> retry_config" where
  "mapbox_retry_config plat =
     \<lparr> retries = 3,
       retryDelay = exponentialDelay plat,
       retryCondition = (\<lambda>error.
          isNetworkOrIdempotentRequestError plat error \<or> status error = Some 429),
       onRetry = (\<lambda>retryCount error.
          [Log Warn (''Retry attempt '' @ numberToString plat (real retryCount)
                     @ '' for Mapbox API call'') []]) \<rparr>"

text \<open>
  Modelled from the spec: the retry loop of the axios-retry library, which is a
  dependency and not part of the sources. An attempt that fails is repeated when the
  configured condition accepts the error and fewer than \<open>retries\<close> retries were made;
  each retry calls \<open>onRetry\<close> with its number (from 1) and waits the configured delay;
  otherwise the failure of the attempt is the failure of the call.
  \<open>left\<close> is the number of retries still allowed, \<open>k\<close> the attempts made so far.
\<close>

fun attempt_loop :: "retry_config \<Rightarrow> transport \<Rightarrow> request \<Rightarrow> nat \<Rightarrow> nat
    \<Rightarrow> event list \<times> (axios_error + response)" where
  "attempt_loop cfg tr req 0 k = ([Sent req], tr req k)"
| "attempt_loop cfg tr req (Suc left) k =
     (case tr req k of
        Inr r \<Rightarrow> ([Sent req], Inr r)
      | Inl e \<Rightarrow>
          if retryCondition cfg e
          then (let (evs, res) = attempt_loop cfg tr req left (Suc k)
                in (Sent req # onRetry cfg (Suc k) e @ Delay (retryDelay cfg (Suc k)) # evs, res))
          else ([Sent req], Inl e))"

text \<open>\<open>axios.get(url, {params})\<close> on the shared instance.\<close>

definition axios_get :: "axios_instance \<Rightarrow> transport \<Rightarrow> request
    \<Rightarrow> event list \<times> (axios_error + response)" where
  "axios_get ax tr req =
     (case retry ax of
        None \<Rightarrow> ([Sent req], tr req 0)
      | Some cfg \<Rightarrow> attempt_loop cfg tr req (retries cfg) 0)"

section \<open>The service\<close>

record MapboxService =
  MAPBOX_BASE_URL :: string
  accessToken :: string

text \<open>
  The constructor. The credential is \<open>None\<close> when the caller passes undefined or null;
  \<open>!accessToken\<close> holds for these and for the empty string.
\<close>

definition MapboxService_new :: "platform \<Rightarrow> axios_instance \<Rightarrow> string option
    \<Rightarrow> (MapboxService \<times> axios_instance) outcome" where
  "MapboxService_new plat ax token =
     (case token of
        None \<Rightarrow> ([Log Err ''Mapbox access token not provided'' []],
                 Inl (Error ''Mapbox access token is required''))
      | Some t \<Rightarrow>
          if t = [] then ([Log Err ''Mapbox access token not provided'' []],
                          Inl (Error ''Mapbox access token is required''))
          else ([], Inr (\<lparr> MAPBOX_BASE_URL = ''https://api.mapbox.com'', accessToken = t \<rparr>,
                         ax \<lparr> retry := Some (mapbox_retry_config plat) \<rparr>)))"

text \<open>\<open>error.response?.status\<close> as a metadata value.\<close>

definition status_meta :: "js_error \<Rightarrow> meta" where
  "status_meta error = (case error_status error of None \<Rightarrow> MUndefined | Some s \<Rightarrow> MNum s)"

text \<open>\<open>points.map((coord) => coord.join(',')).join(';')\<close>\<close>

definition coordinates_path :: "platform \<Rightarrow> (real \<times> real) list \<Rightarrow> string" where
  "coordinates_path plat points =
     join '';'' (map (\<lambda>(lon, lat). join '','' [numberToString plat lon, numberToString plat lat])
                   points)"

text \<open>The url and the parameters of the one request of \<open>getOptimizedRoute\<close>.\<close>

definition route_request :: "platform \<Rightarrow> MapboxService \<Rightarrow> (real \<times> real) list \<Rightarrow> request" where
  "route_request plat this ws =
     (let coordinates = coordinates_path plat ws;
          url = MAPBOX_BASE_URL this @ ''/optimized-trips/v1/mapbox/driving/'' @ coordinates
      in \<lparr> url = url,
           params = [(''access_token'', PStr (accessToken this)),
                     (''geometries'', PStr ''geojson'')] \<rparr>)"

definition getOptimizedRoute :: "platform \<Rightarrow> axios_instance \<Rightarrow> transport \<Rightarrow> MapboxService
    \<Rightarrow> (real \<times> real) js_arg \<Rightarrow> js_value outcome" where
  "getOptimizedRoute plat ax tr this waypoints =
     (case waypoints of
        NotArray \<Rightarrow> ([], Inl (Error ''Invalid waypoints. Minimum 2 coordinates required.''))
      | IsArray ws \<Rightarrow>
          if length ws < 2
          then ([], Inl (Error ''Invalid waypoints. Minimum 2 coordinates required.''))
          else
            (let (evs, res) = axios_get ax tr (route_request plat this ws)
             in case res of
                  Inr response \<Rightarrow>
                    (evs @ [Log Info (''Route optimized for ''
                                      @ numberToString plat (real (length ws)) @ '' waypoints'') []],
                     Inr (data response))
                | Inl e \<Rightarrow>
                    (evs @ [Log Err (''Route optimization error: '' @ error_message (AxiosError e))
                                [(''waypoints'', MCoords ws),
                                 (''status'', status_meta (AxiosError e))]],
                     Inl (Error ''Failed to optimize route''))))"

text \<open>The url and the parameters of the one request of \<open>getElevation\<close>.\<close>

definition elevation_request :: "platform \<Rightarrow> MapboxService \<Rightarrow> real \<Rightarrow> real \<Rightarrow> request" where
  "elevation_request plat this longitude latitude =
     (let url = MAPBOX_BASE_URL this @ ''/v4/mapbox.mapbox-terrain-v2/tilequery/''
                @ numberToString plat longitude @ '','' @ numberToString plat latitude @ ''.json''
      in \<lparr> url = url,
           params = [(''access_token'', PStr (accessToken this)),
                     (''layers'', PStr ''contour''),
                     (''limit'', PNum 1)] \<rparr>)"

text \<open>
  The body of the try block of \<open>getElevation\<close> after the request: \<open>Some ele\<close> is the
  early \<open>return features[0].properties.ele\<close>, \<open>None\<close> is falling through to the
  warning and the default, \<open>Inl\<close> is an exception thrown on the way.
\<close>

definition read_elevation :: "platform \<Rightarrow> js_value \<Rightarrow> js_error + js_value option" where
  "read_elevation plat body =
     and_then (get_prop body ''features'') (\<lambda>features.
     and_then (get_prop features ''length'') (\<lambda>len.
       if gt_zero plat len
       then and_then (get_first features) (\<lambda>feature.
            and_then (get_prop feature ''properties'') (\<lambda>properties.
            and_then (get_prop properties ''ele'') (\<lambda>ele. Inr (Some ele))))
       else Inr None))"

definition getElevation :: "platform \<Rightarrow> axios_instance \<Rightarrow> transport \<Rightarrow> MapboxService
    \<Rightarrow> real \<Rightarrow> real \<Rightarrow> js_value outcome" where
  "getElevation plat ax tr this longitude latitude =
     (let (evs, res) = axios_get ax tr (elevation_request plat this longitude latitude);
          tried = (case res of
                     Inl e \<Rightarrow> Inl (AxiosError e)
                   | Inr response \<Rightarrow> read_elevation plat (data response))
      in case tried of
           Inr (Some ele) \<Rightarrow> (evs, Inr ele)
         | Inr None \<Rightarrow>
             (evs @ [Log Warn (''No elevation data for coordinates: ''
                               @ numberToString plat longitude @ '', ''
                               @ numberToString plat latitude) []],
              Inr (Num 0))
         | Inl error \<Rightarrow>
             (evs @ [Log Err (''Elevation fetch error: '' @ error_message error)
                         [(''coordinates'', MStr (numberToString plat longitude @ '', ''
                                                  @ numberToString plat latitude)),
                          (''status'', status_meta error)]],
              Inl (Error ''Failed to fetch elevation'')))"

text \<open>The url and the parameters of the request for one location of a batch.\<close>

definition geocode_request :: "MapboxService \<Rightarrow> string \<Rightarrow> request" where
  "geocode_request this location =
     (let url = MAPBOX_BASE_URL this @ ''/geocoding/v5/mapbox.places-permanent''
      in \<lparr> url = url,
           params = [(''access_token'', PStr (accessToken this)),
                     (''q'', PStr location),
                     (''limit'', PNum 1)] \<rparr>)"

text \<open>
  One element of \<open>geocodePromises\<close>: the request for one location and
  \<open>response.data.features[0]\<close>.
\<close>

definition geocode_one :: "axios_instance \<Rightarrow> transport \<Rightarrow> MapboxService \<Rightarrow> string
    \<Rightarrow> js_value outcome" where
  "geocode_one ax tr this location =
     (let (evs, res) = axios_get ax tr (geocode_request this location)
      in (evs, case res of
                 Inl e \<Rightarrow> Inl (AxiosError e)
               | Inr response \<Rightarrow> and_then (get_prop (data response) ''features'') get_first))"

primrec rejected :: "('e + 'a) list \<Rightarrow> 'e list" where
  "rejected [] = []"
| "rejected (p # ps) = (case p of Inl e \<Rightarrow> e # rejected ps | Inr x \<Rightarrow> rejected ps)"

primrec fulfilled :: "('e + 'a) list \<Rightarrow> 'a list" where
  "fulfilled [] = []"
| "fulfilled (p # ps) = (case p of Inl e \<Rightarrow> fulfilled ps | Inr x \<Rightarrow> x # fulfilled ps)"

text \<open>
  \<open>Promise.all\<close>: the values in the order of the promises when all are fulfilled,
  otherwise the reason of the promise that is rejected first in time. Which one that is
  the code does not decide: \<open>first\<close> stands for the timing and picks among the rejections.
\<close>

definition promise_all :: "nat \<Rightarrow> ('e + 'a) list \<Rightarrow> 'e + 'a list" where
  "promise_all first ps =
     (if rejected ps = [] then Inr (fulfilled ps)
      else Inl (rejected ps ! (first mod length (rejected ps))))"

text \<open>
  The requests of a batch run concurrently, each against the network on its own:
  \<open>trs i\<close> is what the request for the i-th location meets. None is cancelled. When
  all are answered, the method logs after the last of them; the trace lists the events
  of each request in the order of the locations, and the order between events of
  different requests carries no meaning. When one is rejected, the method logs and
  throws at once while the other requests go on: \<open>progress i\<close> stands for the timing
  and is the number of events of the i-th request that have happened by then; the rest
  follow the error event. In a run of the code the request rejected first has finished
  by then; \<open>progress\<close> is not restricted to that, so the model admits every order the
  code can produce and some more.
\<close>

definition batchGeocode :: "platform \<Rightarrow> axios_instance \<Rightarrow> (nat \<Rightarrow> transport) \<Rightarrow> nat
    \<Rightarrow> (nat \<Rightarrow> nat) \<Rightarrow> MapboxService \<Rightarrow> string js_arg \<Rightarrow> js_value list outcome" where
  "batchGeocode plat ax trs first progress this locations =
     (case locations of
        NotArray \<Rightarrow> ([], Inl (Error ''Invalid locations. Non-empty array required.''))
      | IsArray ls \<Rightarrow>
          if length ls = 0
          then ([], Inl (Error ''Invalid locations. Non-empty array required.''))
          else
            (let geocodePromises = map (\<lambda>(i, location). geocode_one ax (trs i) this location)
                                       (enumerate 0 ls)
             in case promise_all first (map snd geocodePromises) of
                  Inr results \<Rightarrow>
                    (concat (map fst geocodePromises)
                     @ [Log Info (''Geocoded '' @ numberToString plat (real (length results))
                                  @ '' locations'') []],
                     Inr results)
                | Inl error \<Rightarrow>
                    (concat (map (\<lambda>(i, p). take (progress i) (fst p))
                                 (enumerate 0 geocodePromises))
                     @ [Log Err (''Batch geocoding error: '' @ error_message error)
                            [(''locationCount'', MNum (length ls)),
                             (''status'', status_meta error)]]
                     @ concat (map (\<lambda>(i, p). drop (progress i) (fst p))
                                   (enumerate 0 geocodePromises)),
                     Inl (Error ''Failed to geocode locations''))))"

text \<open>The url and the parameters of the one request of \<open>getDistanceMatrix\<close>.\<close>

definition matrix_request :: "platform \<Rightarrow> MapboxService \<Rightarrow> (real \<times> real) list \<Rightarrow> request" where
  "matrix_request plat this ps =
     (let coordinates = coordinates_path plat ps;
          url = MAPBOX_BASE_URL this @ ''/distances/v1/mapbox/driving/'' @ coordinates
      in \<lparr> url = url,
           params = [(''access_token'', PStr (accessToken this)),
                     (''annotations'', PStr ''duration,distance'')] \<rparr>)"

definition getDistanceMatrix :: "platform \<Rightarrow> axios_instance \<Rightarrow> transport \<Rightarrow> MapboxService
    \<Rightarrow> (real \<times> real) js_arg \<Rightarrow> js_value outcome" where
  "getDistanceMatrix plat ax tr this points =
     (case points of
        NotArray \<Rightarrow> ([], Inl (Error ''Invalid points. Minimum 2 coordinates required.''))
      | IsArray ps \<Rightarrow>
          if length ps < 2
          then ([], Inl (Error ''Invalid points. Minimum 2 coordinates required.''))
          else
            (let (evs, res) = axios_get ax tr (matrix_request plat this ps)
             in case res of
                  Inr response \<Rightarrow>
                    (evs @ [Log Info (''Distance matrix calculated for ''
                                      @ numberToString plat (real (length ps)) @ '' points'') []],
                     Inr (data response))
                | Inl e \<Rightarrow>
                    (evs @ [Log Err (''Distance matrix error: '' @ error_message (AxiosError e))
                                [(''pointCount'', MNum (length ps)),
                                 (''status'', status_meta (AxiosError e))]],
                     Inl (Error ''Failed to fetch distance matrix''))))"

section \<open>The error kinds of the specification\<close>

text \<open>
  The code throws plain \<open>Error\<close> objects. The kinds the specification names are told
  apart by the fixed message each throw site uses.
\<close>

definition ConfigurationError :: js_error where
  "ConfigurationError = Error ''Mapbox access token is required''"

definition ValidationError :: "js_error set" where
  "ValidationError = {Error ''Invalid waypoints. Minimum 2 coordinates required.'',
                      Error ''Invalid locations. Non-empty array required.'',
                      Error ''Invalid points. Minimum 2 coordinates required.''}"

definition RouteOptimizationError :: js_error where
  "RouteOptimizationError = Error ''Failed to optimize route''"

definition ElevationLookupError :: js_error where
  "ElevationLookupError = Error ''Failed to fetch elevation''"

definition GeocodingError :: js_error where
  "GeocodingError = Error ''Failed to geocode locations''"

definition DistanceMatrixError :: js_error where
  "DistanceMatrixError = Error ''Failed to fetch distance matrix''"

section \<open>Reading a trace\<close>

definition sent :: "event list \<Rightarrow> request list" where
  "sent evs = concat (map (\<lambda>e. case e of Sent r \<Rightarrow> [r] | _ \<Rightarrow> []) evs)"

definition warnings :: "event list \<Rightarrow> string list" where
  "warnings evs = concat (map (\<lambda>e. case e of Log Warn m md \<Rightarrow> [m] | _ \<Rightarrow> []) evs)"

definition delays :: "event list \<Rightarrow> nat list" where
  "delays evs = concat (map (\<lambda>e. case e of Delay d \<Rightarrow> [d] | _ \<Rightarrow> []) evs)"





text \<open>
  \<open>String.prototype.split\<close> with a separator of one character: the inverse the
  provider applies to the path segment.
\<close>

fun split_on :: "char \<Rightarrow> string \<Rightarrow> string list" where
  "split_on c [] = [[]]"
| "split_on c (x # xs) =
     (if x = c then [] # split_on c xs
      else (case split_on c xs of [] \<Rightarrow> [[x]] | y # ys \<Rightarrow> (x # y) # ys))"

text \<open>
  An error-level event summarises the input by counts when every metadata entry, the
  status apart, is a number.
\<close>

fun counts_only :: "event \<Rightarrow> bool" where
  "counts_only (Log lv m md) =
     list_all (\<lambda>(key, v). key = ''status'' \<or> (case v of MNum n \<Rightarrow> True | _ \<Rightarrow> False)) md"
| "counts_only e = True"

section \<open>A concrete platform, service and networks\<close>

fun decimal :: "nat \<Rightarrow> string" where
  "decimal n = (if n < 10 then [''0123456789'' ! n]
                else decimal (n div 10) @ [''0123456789'' ! (n mod 10)])"

declare decimal.simps [simp del]

text \<open>
  A platform for running the model: whole non-negative numbers are rendered in decimal,
  no error code is held to be unsafe, and the random share of every wait is zero.
\<close>

definition example_platform :: platform where
  "example_platform =
     \<lparr> numberToString = (\<lambda>r. decimal (nat \<lfloor>r\<rfloor>)),
       toNumber = (\<lambda>v. None),
       isRetryAllowed = (\<lambda>e. True),
       jitter = (\<lambda>n. 0) \<rparr>"

definition fresh_axios :: axios_instance where
  "fresh_axios = \<lparr> retry = None \<rparr>"

definition example_axios :: axios_instance where
  "example_axios = \<lparr> retry = Some (mapbox_retry_config example_platform) \<rparr>"

definition example_service :: MapboxService where
  "example_service =
     \<lparr> MAPBOX_BASE_URL = ''https://api.mapbox.com'', accessToken = ''pk.test'' \<rparr>"

definition failed_with :: "nat \<Rightarrow> axios_error" where
  "failed_with s =
     \<lparr> message = ''Request failed with status code '' @ decimal s,
       code = Some (if s < 500 then ''ERR_BAD_REQUEST'' else ''ERR_BAD_RESPONSE''),
       status = Some s \<rparr>"



text \<open>Every attempt is answered with the given status.\<close>

definition always_status :: "nat \<Rightarrow> transport" where
  "always_status s req k = Inl (failed_with s)"


text \<open>Every attempt is answered with the given body.\<close>

definition always_ok :: "js_value \<Rightarrow> transport" where
  "always_ok body req k = Inr \<lparr> data = body \<rparr>"


text \<open>Bodies of the geocoding provider: one match, and no match.\<close>

definition paris_feature :: js_value where
  "paris_feature = Obj [(''place_name'', Str ''Paris, France'')]"

definition paris_body :: js_value where
  "paris_body = Obj [(''features'', Arr [paris_feature])]"

definition no_match_body :: js_value where
  "no_match_body = Obj [(''features'', Arr [])]"

text \<open>Bodies of the elevation provider: one contour feature, and a body without features.\<close>

definition contour_body :: js_value where
  "contour_body = Obj [(''features'', Arr [Obj [(''properties'', Obj [(''ele'', Num 1520)])]])]"


text \<open>The networks of a batch of two: both answered, and the second refused with 400.\<close>

definition first_matches :: "nat \<Rightarrow> transport" where
  "first_matches i = always_ok (if i = 0 then paris_body else no_match_body)"

definition second_refused :: "nat \<Rightarrow> transport" where
  "second_refused i = (if i = 1 then always_status 400 else always_ok paris_body)"

section \<open>Input validation\<close>

lemma ValidationError_members:
  "Error ''Invalid waypoints. Minimum 2 coordinates required.'' \<in> ValidationError"
  "Error ''Invalid locations. Non-empty array required.'' \<in> ValidationError"
  "Error ''Invalid points. Minimum 2 coordinates required.'' \<in> ValidationError"
  unfolding ValidationError_def by (rule insertI1 | rule insertI2)+

lemma route_invalid:
  "arg = NotArray \<or> (\<exists>ws. arg = IsArray ws \<and> length ws < 2) \<Longrightarrow>
   getOptimizedRoute plat ax tr this arg
     = ([], Inl (Error ''Invalid waypoints. Minimum 2 coordinates required.''))"
  unfolding getOptimizedRoute_def by (cases arg) simp_all

lemma matrix_invalid:
  "arg = NotArray \<or> (\<exists>ws. arg = IsArray ws \<and> length ws < 2) \<Longrightarrow>
   getDistanceMatrix plat ax tr this arg
     = ([], Inl (Error ''Invalid points. Minimum 2 coordinates required.''))"
  unfolding getDistanceMatrix_def by (cases arg) simp_all

lemma batch_invalid:
  "arg = NotArray \<or> arg = IsArray [] \<Longrightarrow>
   batchGeocode plat ax trs first progress this arg
     = ([], Inl (Error ''Invalid locations. Non-empty array required.''))"
  unfolding batchGeocode_def by (cases arg) auto

text \<open>
  C6. A waypoint or point argument that is not an array, or an array of fewer than two
  coordinates, makes \<open>getOptimizedRoute\<close> and \<open>getDistanceMatrix\<close> fail with a
  validation error, and the trace of the call is empty: no request was sent (and
  nothing was logged).
\<close>

theorem short_sequences_rejected:
  assumes "arg = NotArray \<or> (\<exists>ws. arg = IsArray ws \<and> length ws < 2)"
  shows "(\<exists>e. e \<in> ValidationError \<and> getOptimizedRoute plat ax tr this arg = ([], Inl e))
       \<and> (\<exists>e. e \<in> ValidationError \<and> getDistanceMatrix plat ax tr this arg = ([], Inl e))"
  using route_invalid [OF assms] matrix_invalid [OF assms] ValidationError_members
  by blast

theorem short_sequences_rejected_witness:
  "(\<exists>e. e \<in> ValidationError
        \<and> getOptimizedRoute example_platform example_axios (always_ok Null) example_service
             (IsArray [(2, 48)]) = ([], Inl e))
 \<and> (\<exists>e. e \<in> ValidationError
        \<and> getDistanceMatrix example_platform example_axios (always_ok Null) example_service
             (IsArray [(2, 48)]) = ([], Inl e))"
proof -
  have h: "IsArray [(2::real, 48::real)] = NotArray
           \<or> (\<exists>ws. IsArray [(2::real, 48::real)] = IsArray ws \<and> length ws < 2)"
    by simp
  show ?thesis
    using short_sequences_rejected [of "IsArray [(2, 48)]" example_platform example_axios
            "always_ok Null" example_service, OF h] .
qed

text \<open>
  C7. A locations argument that is not an array, or an empty array, makes
  \<open>batchGeocode\<close> fail with a validation error, and the trace of the call is empty: no
  request was sent.
\<close>

theorem empty_locations_rejected:
  assumes "arg = NotArray \<or> arg = IsArray []"
  shows "\<exists>e. e \<in> ValidationError \<and> batchGeocode plat ax trs first progress this arg = ([], Inl e)"
  using batch_invalid [OF assms] ValidationError_members
  by blast

theorem empty_locations_rejected_witness:
  "\<exists>e. e \<in> ValidationError
      \<and> batchGeocode example_platform example_axios (\<lambda>i. always_ok Null) 0 (\<lambda>i. 1) example_service
           (IsArray []) = ([], Inl e)"
proof -
  have h: "(IsArray [] :: string js_arg) = NotArray \<or> (IsArray [] :: string js_arg) = IsArray []"
    by simp
  show ?thesis
    using empty_locations_rejected [where arg = "IsArray []" and plat = example_platform
            and ax = example_axios and trs = "\<lambda>i. always_ok Null" and first = 0
            and progress = "\<lambda>i. 1" and this = example_service, OF h] .
qed

section \<open>The retry loop under the installed policy\<close>

lemma sent_simps [simp]:
  "sent [] = []"
  "sent (Sent r # evs) = r # sent evs"
  "sent (Delay d # evs) = sent evs"
  "sent (Log lv m md # evs) = sent evs"
  "sent (xs @ ys) = sent xs @ sent ys"
  by (simp_all add: sent_def)

lemma warnings_simps [simp]:
  "warnings [] = []"
  "warnings (Sent r # evs) = warnings evs"
  "warnings (Delay d # evs) = warnings evs"
  "warnings (Log Warn m md # evs) = m # warnings evs"
  "warnings (Log Info m md # evs) = warnings evs"
  "warnings (Log Err m md # evs) = warnings evs"
  "warnings (xs @ ys) = warnings xs @ warnings ys"
  by (simp_all add: warnings_def)

lemma delays_simps [simp]:
  "delays [] = []"
  "delays (Sent r # evs) = delays evs"
  "delays (Delay d # evs) = d # delays evs"
  "delays (Log lv m md # evs) = delays evs"
  "delays (xs @ ys) = delays xs @ delays ys"
  by (simp_all add: delays_def)

lemma mapbox_retry_config_simps [simp]:
  "retries (mapbox_retry_config plat) = 3"
  "retryDelay (mapbox_retry_config plat) = exponentialDelay plat"
  "retryCondition (mapbox_retry_config plat) e =
     (isNetworkOrIdempotentRequestError plat e \<or> status e = Some 429)"
  "onRetry (mapbox_retry_config plat) n e =
     [Log Warn (''Retry attempt '' @ numberToString plat (real n) @ '' for Mapbox API call'') []]"
  by (simp_all add: mapbox_retry_config_def)

lemma loop_attempted_once:
  "sent (fst (attempt_loop (mapbox_retry_config plat) tr req left k)) \<noteq> []"
  by (cases left) (simp_all add: case_prod_beta split: sum.splits)

lemma loop_sent:
  "sent (fst (attempt_loop (mapbox_retry_config plat) tr req left k))
     = replicate (length (sent (fst (attempt_loop (mapbox_retry_config plat) tr req left k)))) req"
  by (induction left arbitrary: k) (simp_all add: case_prod_beta split: sum.splits)





lemma axios_get_installed:
  "retry ax = Some (mapbox_retry_config plat) \<Longrightarrow>
   axios_get ax tr req = attempt_loop (mapbox_retry_config plat) tr req 3 0"
  by (simp add: axios_get_def)

section \<open>How each method continues from the outcome of its request\<close>


lemma not_retried_run:
  assumes "retry ax = Some (mapbox_retry_config plat)"
    and "tr req 0 = Inl e" "\<not> isNetworkOrIdempotentRequestError plat e" "status e \<noteq> Some 429"
  shows "axios_get ax tr req = ([Sent req], Inl e)"
  using assms by (simp add: axios_get_def numeral_3_eq_3)

lemma example_answered:
  "axios_get example_axios (always_ok body) req = ([Sent req], Inr \<lparr> data = body \<rparr>)"
  by (simp add: axios_get_def example_axios_def always_ok_def numeral_3_eq_3)

lemma route_ok:
  "2 \<le> length ws \<Longrightarrow> axios_get ax tr (route_request plat this ws) = (evs, Inr r) \<Longrightarrow>
   getOptimizedRoute plat ax tr this (IsArray ws) =
     (evs @ [Log Info (''Route optimized for '' @ numberToString plat (real (length ws))
                       @ '' waypoints'') []],
      Inr (data r))"
  by (simp add: getOptimizedRoute_def)

lemma route_fail:
  "2 \<le> length ws \<Longrightarrow> axios_get ax tr (route_request plat this ws) = (evs, Inl e) \<Longrightarrow>
   getOptimizedRoute plat ax tr this (IsArray ws) =
     (evs @ [Log Err (''Route optimization error: '' @ message e)
                 [(''waypoints'', MCoords ws), (''status'', status_meta (AxiosError e))]],
      Inl (Error ''Failed to optimize route''))"
  by (simp add: getOptimizedRoute_def)

lemma matrix_ok:
  "2 \<le> length ps \<Longrightarrow> axios_get ax tr (matrix_request plat this ps) = (evs, Inr r) \<Longrightarrow>
   getDistanceMatrix plat ax tr this (IsArray ps) =
     (evs @ [Log Info (''Distance matrix calculated for '' @ numberToString plat (real (length ps))
                       @ '' points'') []],
      Inr (data r))"
  by (simp add: getDistanceMatrix_def)

lemma matrix_fail:
  "2 \<le> length ps \<Longrightarrow> axios_get ax tr (matrix_request plat this ps) = (evs, Inl e) \<Longrightarrow>
   getDistanceMatrix plat ax tr this (IsArray ps) =
     (evs @ [Log Err (''Distance matrix error: '' @ message e)
                 [(''pointCount'', MNum (length ps)), (''status'', status_meta (AxiosError e))]],
      Inl (Error ''Failed to fetch distance matrix''))"
  by (simp add: getDistanceMatrix_def)

lemma elevation_found:
  "axios_get ax tr (elevation_request plat this lon lat) = (evs, Inr r) \<Longrightarrow>
   read_elevation plat (data r) = Inr (Some ele) \<Longrightarrow>
   getElevation plat ax tr this lon lat = (evs, Inr ele)"
  by (simp add: getElevation_def)

lemma elevation_default:
  "axios_get ax tr (elevation_request plat this lon lat) = (evs, Inr r) \<Longrightarrow>
   read_elevation plat (data r) = Inr None \<Longrightarrow>
   getElevation plat ax tr this lon lat =
     (evs @ [Log Warn (''No elevation data for coordinates: '' @ numberToString plat lon @ '', ''
                       @ numberToString plat lat) []],
      Inr (Num 0))"
  by (simp add: getElevation_def)


lemma elevation_fail:
  "axios_get ax tr (elevation_request plat this lon lat) = (evs, Inl e) \<Longrightarrow>
   getElevation plat ax tr this lon lat =
     (evs @ [Log Err (''Elevation fetch error: '' @ message e)
                 [(''coordinates'', MStr (numberToString plat lon @ '', '' @ numberToString plat lat)),
                  (''status'', status_meta (AxiosError e))]],
      Inl (Error ''Failed to fetch elevation''))"
  by (simp add: getElevation_def)


lemma geocode_one_fail:
  "axios_get ax tr (geocode_request this l) = (evs, Inl e) \<Longrightarrow>
   geocode_one ax tr this l = (evs, Inl (AxiosError e))"
  by (simp add: geocode_one_def)

section \<open>Batch geocoding\<close>

lemma rejected_mem: "e \<in> set (rejected ps) \<longleftrightarrow> Inl e \<in> set ps"
  by (induction ps) (auto split: sum.splits)

lemma promise_all_rejects:
  assumes "Inl e \<in> set ps"
  shows "\<exists>e'. Inl e' \<in> set ps \<and> promise_all first ps = Inl e'"
proof -
  have ne: "rejected ps \<noteq> []"
    using assms rejected_mem [of e ps] by auto
  then have "rejected ps ! (first mod length (rejected ps)) \<in> set (rejected ps)"
    by (intro nth_mem) simp
  then show ?thesis
    using ne by (auto simp: promise_all_def rejected_mem)
qed

lemma fulfilled_nth:
  "\<forall>i<length ps. ps ! i = Inr (f i) \<Longrightarrow> rejected ps = [] \<and> fulfilled ps = map f [0..<length ps]"
proof (induction ps arbitrary: f)
  case Nil
  show ?case by simp
next
  case (Cons p ps)
  have p: "p = Inr (f 0)"
    using Cons.prems by auto
  have "\<forall>i<length ps. ps ! i = Inr ((f \<circ> Suc) i)"
    using Cons.prems by auto
  then have "rejected ps = [] \<and> fulfilled ps = map (f \<circ> Suc) [0..<length ps]"
    by (rule Cons.IH)
  moreover have "map f [0..<length (p # ps)] = f 0 # map (f \<circ> Suc) [0..<length ps]"
    by (simp add: upt_conv_Cons map_Suc_upt [symmetric] del: upt_Suc)
  ultimately show ?case
    using p by simp
qed

lemma promise_all_fulfils:
  assumes "\<forall>i<length ps. ps ! i = Inr (f i)"
  shows "promise_all first ps = Inr (map f [0..<length ps])"
  using fulfilled_nth [OF assms] by (simp add: promise_all_def)

lemma batch_fulfilled:
  assumes "ls \<noteq> []"
    and "promise_all first (map snd (map (\<lambda>(i, location). geocode_one ax (trs i) this location)
                                        (enumerate 0 ls))) = Inr results"
  shows "snd (batchGeocode plat ax trs first progress this (IsArray ls)) = Inr results"
  using assms by (simp add: batchGeocode_def Let_def)

lemma batch_rejected:
  assumes "ls \<noteq> []"
    and "promise_all first (map snd (map (\<lambda>(i, location). geocode_one ax (trs i) this location)
                                        (enumerate 0 ls))) = Inl err"
  shows "batchGeocode plat ax trs first progress this (IsArray ls) =
           (concat (map (\<lambda>(i, p). take (progress i) (fst p))
                        (enumerate 0 (map (\<lambda>(i, location). geocode_one ax (trs i) this location)
                                          (enumerate 0 ls))))
            @ [Log Err (''Batch geocoding error: '' @ error_message err)
                   [(''locationCount'', MNum (length ls)), (''status'', status_meta err)]]
            @ concat (map (\<lambda>(i, p). drop (progress i) (fst p))
                          (enumerate 0 (map (\<lambda>(i, location). geocode_one ax (trs i) this location)
                                            (enumerate 0 ls)))),
            Inl (Error ''Failed to geocode locations''))"
  using assms by (simp add: batchGeocode_def Let_def)

text \<open>
  C2. For a non-empty list of locations, when the request for one of them ends in a
  failure (retries included, they happen inside \<open>axios_get\<close>), \<open>batchGeocode\<close> fails
  with the geocoding error whatever the other requests meet and whichever rejection
  comes first; it returns no result array.
\<close>

theorem batch_fails_as_a_whole:
  assumes "ls \<noteq> []" and "i < length ls"
    and "snd (axios_get ax (trs i) (geocode_request this (ls ! i))) = Inl e"
  shows "snd (batchGeocode plat ax trs first progress this (IsArray ls)) = Inl GeocodingError
       \<and> (\<forall>results. snd (batchGeocode plat ax trs first progress this (IsArray ls)) \<noteq> Inr results)"
proof -
  let ?ps = "map (\<lambda>(i, location). geocode_one ax (trs i) this location) (enumerate 0 ls)"
  have "snd (geocode_one ax (trs i) this (ls ! i)) = Inl (AxiosError e)"
    using assms(3) by (simp add: geocode_one_def case_prod_beta)
  then have nth: "map snd ?ps ! i = Inl (AxiosError e)"
    using assms(2) by (simp add: nth_enumerate_eq)
  have "i < length (map snd ?ps)"
    using assms(2) by simp
  then have "map snd ?ps ! i \<in> set (map snd ?ps)"
    by (rule nth_mem)
  then have "Inl (AxiosError e) \<in> set (map snd ?ps)"
    unfolding nth .
  then obtain e' where "promise_all first (map snd ?ps) = Inl e'"
    using promise_all_rejects [of "AxiosError e" "map snd ?ps" first] by blast
  then have "snd (batchGeocode plat ax trs first progress this (IsArray ls))
               = Inl (Error ''Failed to geocode locations'')"
    using batch_rejected [OF assms(1), where first = first and ax = ax and trs = trs
            and this = this and err = e' and plat = plat and progress = progress]
    by (simp only: snd_conv)
  then show ?thesis
    unfolding GeocodingError_def by simp
qed



theorem batch_fails_as_a_whole_witness:
  "snd (axios_get example_axios (second_refused 1)
          (geocode_request example_service ([''Paris'', ''Nonexistent__Place_X''] ! 1)))
     = Inl (failed_with 400)
   \<and> snd (batchGeocode example_platform example_axios second_refused 0 (\<lambda>i. 1) example_service
            (IsArray [''Paris'', ''Nonexistent__Place_X''])) = Inl GeocodingError"
proof -
  have h1: "[''Paris'', ''Nonexistent__Place_X''] \<noteq> []" by simp
  have h2: "1 < length [''Paris'', ''Nonexistent__Place_X'']" by simp
  have h3: "snd (axios_get example_axios (second_refused 1)
                   (geocode_request example_service ([''Paris'', ''Nonexistent__Place_X''] ! 1)))
              = Inl (failed_with 400)"
    by (simp add: axios_get_def example_axios_def second_refused_def always_status_def
          example_platform_def failed_with_def numeral_3_eq_3)
  show ?thesis
    using h3 batch_fails_as_a_whole [where trs = second_refused and i = 1
              and ls = "[''Paris'', ''Nonexistent__Place_X'']" and ax = example_axios
              and this = example_service and e = "failed_with 400"
              and plat = example_platform and first = 0 and progress = "\<lambda>i. 1",
              OF h1 h2 h3]
    by blast
qed

lemma batch_promises_fulfilled:
  assumes "\<forall>i<length ls. snd (axios_get ax (trs i) (geocode_request this (ls ! i))) = Inr (rs i)
                       \<and> get_prop (data (rs i)) ''features'' = Inr (Arr (fs i))"
  shows "promise_all first (map snd (map (\<lambda>(i, location). geocode_one ax (trs i) this location)
                                        (enumerate 0 ls)))
           = Inr (map (\<lambda>i. case fs i of [] \<Rightarrow> Undefined | f # _ \<Rightarrow> f) [0..<length ls])"
proof -
  let ?ps = "map (\<lambda>(i, location). geocode_one ax (trs i) this location) (enumerate 0 ls)"
  let ?f = "\<lambda>i. case fs i of [] \<Rightarrow> Undefined | f # _ \<Rightarrow> f"
  have "\<forall>i<length (map snd ?ps). map snd ?ps ! i = Inr (?f i)"
  proof (intro allI impI)
    fix i assume "i < length (map snd ?ps)"
    then have i: "i < length ls" by simp
    with assms have "snd (axios_get ax (trs i) (geocode_request this (ls ! i))) = Inr (rs i)"
      and "get_prop (data (rs i)) ''features'' = Inr (Arr (fs i))" by auto
    then have "snd (geocode_one ax (trs i) this (ls ! i)) = Inr (?f i)"
      by (simp add: geocode_one_def case_prod_beta split: list.splits)
    then show "map snd ?ps ! i = Inr (?f i)"
      using i by (simp add: nth_enumerate_eq)
  qed
  then have "promise_all first (map snd ?ps) = Inr (map ?f [0..<length (map snd ?ps)])"
    by (rule promise_all_fulfils)
  then show ?thesis by simp
qed

lemma batch_answered:
  assumes "ls \<noteq> []"
    and "\<forall>i<length ls. snd (axios_get ax (trs i) (geocode_request this (ls ! i))) = Inr (rs i)
                       \<and> get_prop (data (rs i)) ''features'' = Inr (Arr (fs i))"
  shows "\<exists>results. snd (batchGeocode plat ax trs first progress this (IsArray ls)) = Inr results
           \<and> length results = length ls
           \<and> (\<forall>i<length ls. results ! i = (case fs i of [] \<Rightarrow> Undefined | f # _ \<Rightarrow> f))"
proof -
  have "snd (batchGeocode plat ax trs first progress this (IsArray ls))
          = Inr (map (\<lambda>i. case fs i of [] \<Rightarrow> Undefined | f # _ \<Rightarrow> f) [0..<length ls])"
    by (rule batch_fulfilled [OF assms(1) batch_promises_fulfilled [OF assms(2)]])
  then show ?thesis by simp
qed

text \<open>
  C5. For a non-empty list of locations, when every request is answered and every
  body has a features array, \<open>batchGeocode\<close> returns an array as long as the input
  whose i-th element is the first feature of the answer to the i-th location, or
  undefined when that array is empty.
\<close>

theorem batch_keeps_positions:
  assumes "ls \<noteq> []"
    and "\<forall>i<length ls. snd (axios_get ax (trs i) (geocode_request this (ls ! i))) = Inr (rs i)
                       \<and> get_prop (data (rs i)) ''features'' = Inr (Arr (fs i))"
  shows "\<exists>results. snd (batchGeocode plat ax trs first progress this (IsArray ls)) = Inr results
           \<and> length results = length ls
           \<and> (\<forall>i<length ls. results ! i = (case fs i of [] \<Rightarrow> Undefined | f # _ \<Rightarrow> f))"
  using batch_answered [OF assms] .

theorem batch_keeps_positions_witness:
  "snd (batchGeocode example_platform example_axios first_matches 0 (\<lambda>i. 1) example_service
          (IsArray [''Paris'', ''Nonexistent__Place_X''])) = Inr [paris_feature, Undefined]"
proof -
  let ?ls = "[''Paris'', ''Nonexistent__Place_X'']"
  let ?rs = "\<lambda>i::nat. \<lparr> data = (if i = 0 then paris_body else no_match_body) \<rparr>"
  let ?fs = "\<lambda>i::nat. if i = 0 then [paris_feature] else []"
  have h1: "?ls \<noteq> []" by simp
  have ok: "snd (axios_get example_axios (first_matches i) req) = Inr (?rs i)" for i req
    by (simp add: axios_get_def example_axios_def first_matches_def always_ok_def numeral_3_eq_3)
  have feats: "get_prop (data (?rs i)) ''features'' = Inr (Arr (?fs i))" for i
    by (simp add: paris_body_def no_match_body_def)
  have h2: "\<forall>i<length ?ls. snd (axios_get example_axios (first_matches i)
                                  (geocode_request example_service (?ls ! i))) = Inr (?rs i)
                \<and> get_prop (data (?rs i)) ''features'' = Inr (Arr (?fs i))"
    using ok feats by blast
  obtain results where r: "snd (batchGeocode example_platform example_axios first_matches 0 (\<lambda>i. 1)
                                  example_service (IsArray ?ls)) = Inr results"
    and len: "length results = length ?ls"
    and nth: "\<forall>i<length ?ls. results ! i = (case ?fs i of [] \<Rightarrow> Undefined | f # _ \<Rightarrow> f)"
    using batch_keeps_positions [OF h1 h2, where plat = example_platform and first = 0
            and progress = "\<lambda>i. 1"] by blast
  have "results ! 0 = paris_feature" "results ! 1 = Undefined"
    using nth by simp_all
  then have "results = [paris_feature, Undefined]"
    using len by (cases results; cases "tl results") auto
  then show ?thesis using r by simp
qed

section \<open>Elevation lookup\<close>

lemma read_elevation_features:
  "get_prop body ''features'' = Inr (Arr []) \<Longrightarrow> read_elevation plat body = Inr None"
  "get_prop body ''features'' = Inr (Arr (f # rest)) \<Longrightarrow>
     read_elevation plat body =
       and_then (get_prop f ''properties'') (\<lambda>properties.
       and_then (get_prop properties ''ele'') (\<lambda>ele. Inr (Some ele)))"
  by (simp_all add: read_elevation_def)


text \<open>
  C4. When the elevation request is answered and the body has a features array:
  if the array is empty, \<open>getElevation\<close> returns 0 and its last event is the warning
  about the coordinate; if it has a first feature with properties, the result is the
  \<open>ele\<close> property of that feature and nothing more is logged.
\<close>

theorem elevation_extraction:
  assumes "snd (axios_get ax tr (elevation_request plat this lon lat)) = Inr r"
    and "get_prop (data r) ''features'' = Inr (Arr fs)"
  shows "(fs = [] \<longrightarrow>
            getElevation plat ax tr this lon lat =
              (fst (axios_get ax tr (elevation_request plat this lon lat))
               @ [Log Warn (''No elevation data for coordinates: '' @ numberToString plat lon
                            @ '', '' @ numberToString plat lat) []],
               Inr (Num 0)))
       \<and> (\<forall>f rest properties ele.
             fs = f # rest \<and> get_prop f ''properties'' = Inr properties
               \<and> get_prop properties ''ele'' = Inr ele \<longrightarrow>
             getElevation plat ax tr this lon lat =
               (fst (axios_get ax tr (elevation_request plat this lon lat)), Inr ele))"
proof -
  let ?evs = "fst (axios_get ax tr (elevation_request plat this lon lat))"
  have run: "axios_get ax tr (elevation_request plat this lon lat) = (?evs, Inr r)"
    using assms(1) by (simp add: prod_eq_iff)
  have none: "getElevation plat ax tr this lon lat =
                (?evs @ [Log Warn (''No elevation data for coordinates: '' @ numberToString plat lon
                                   @ '', '' @ numberToString plat lat) []],
                 Inr (Num 0))" if "fs = []"
    using that assms(2) by (intro elevation_default [OF run] read_elevation_features(1)) simp
  have some: "getElevation plat ax tr this lon lat = (?evs, Inr ele)"
    if "fs = f # rest" "get_prop f ''properties'' = Inr properties"
       "get_prop properties ''ele'' = Inr ele" for f rest properties ele
  proof -
    have "read_elevation plat (data r) = Inr (Some ele)"
      using read_elevation_features(2) [of "data r" f rest plat] assms(2) that by simp
    then show ?thesis by (rule elevation_found [OF run])
  qed
  show ?thesis
    using none some by blast
qed

theorem elevation_extraction_witness:
  "getElevation example_platform example_axios (always_ok no_match_body) example_service 86 27
     = ([Sent (elevation_request example_platform example_service 86 27),
         Log Warn ''No elevation data for coordinates: 86, 27'' []],
        Inr (Num 0))
 \<and> getElevation example_platform example_axios (always_ok contour_body) example_service 86 27
     = ([Sent (elevation_request example_platform example_service 86 27)], Inr (Num 1520))"
proof -
  let ?req = "elevation_request example_platform example_service 86 27"
  have run: "axios_get example_axios (always_ok body) ?req = ([Sent ?req], Inr \<lparr> data = body \<rparr>)"
    for body
    by (simp add: axios_get_def example_axios_def always_ok_def numeral_3_eq_3)
  have s1: "snd (axios_get example_axios (always_ok no_match_body) ?req) = Inr \<lparr> data = no_match_body \<rparr>"
    and s2: "snd (axios_get example_axios (always_ok contour_body) ?req) = Inr \<lparr> data = contour_body \<rparr>"
    by (simp_all add: run)
  have f1: "get_prop (data \<lparr> data = no_match_body \<rparr>) ''features'' = Inr (Arr [])"
    by (simp add: no_match_body_def)
  have f2: "get_prop (data \<lparr> data = contour_body \<rparr>) ''features''
              = Inr (Arr [Obj [(''properties'', Obj [(''ele'', Num 1520)])]])"
    by (simp add: contour_body_def)
  have n: "numberToString example_platform 86 = ''86''" "numberToString example_platform 27 = ''27''"
    by (simp_all add: example_platform_def decimal.simps)
  have "getElevation example_platform example_axios (always_ok no_match_body) example_service 86 27
     = ([Sent ?req] @ [Log Warn (''No elevation data for coordinates: '' @ ''86'' @ '', '' @ ''27'') []],
        Inr (Num 0))"
    using elevation_extraction [OF s1 f1] by (simp add: run n)
  moreover
  have "getElevation example_platform example_axios (always_ok contour_body) example_service 86 27
     = ([Sent ?req], Inr (Num 1520))"
    using elevation_extraction [OF s2 f2] by (simp add: run)
  ultimately show ?thesis by simp
qed




section \<open>Construction and the credential\<close>

lemma axios_get_sent:
  assumes "retry ax = Some (mapbox_retry_config plat)"
    and "r \<in> set (sent (fst (axios_get ax tr req)))"
  shows "r = req"
proof -
  have "sent (fst (axios_get ax tr req))
          = replicate (length (sent (fst (axios_get ax tr req)))) req"
    unfolding axios_get_installed [OF assms(1)] by (rule loop_sent)
  then have "set (sent (fst (axios_get ax tr req))) \<subseteq> {req}"
    by (metis set_replicate_conv_if empty_subsetI subset_refl)
  then show ?thesis using assms(2) by blast
qed

lemma route_sent:
  assumes "retry ax = Some (mapbox_retry_config plat)"
    and "r \<in> set (sent (fst (getOptimizedRoute plat ax tr this arg)))"
  shows "\<exists>ws. arg = IsArray ws \<and> 2 \<le> length ws \<and> r = route_request plat this ws"
proof (cases arg)
  case NotArray
  then show ?thesis using assms(2) by (simp add: getOptimizedRoute_def)
next
  case (IsArray ws)
  show ?thesis
  proof (cases "length ws < 2")
    case True
    then show ?thesis using assms(2) IsArray by (simp add: getOptimizedRoute_def)
  next
    case False
    then have "r \<in> set (sent (fst (axios_get ax tr (route_request plat this ws))))"
      using assms(2) IsArray
      by (simp add: getOptimizedRoute_def case_prod_beta split: sum.splits)
    then have "r = route_request plat this ws"
      by (rule axios_get_sent [OF assms(1)])
    then show ?thesis using False IsArray by simp
  qed
qed

lemma matrix_sent:
  assumes "retry ax = Some (mapbox_retry_config plat)"
    and "r \<in> set (sent (fst (getDistanceMatrix plat ax tr this arg)))"
  shows "\<exists>ps. arg = IsArray ps \<and> 2 \<le> length ps \<and> r = matrix_request plat this ps"
proof (cases arg)
  case NotArray
  then show ?thesis using assms(2) by (simp add: getDistanceMatrix_def)
next
  case (IsArray ps)
  show ?thesis
  proof (cases "length ps < 2")
    case True
    then show ?thesis using assms(2) IsArray by (simp add: getDistanceMatrix_def)
  next
    case False
    then have "r \<in> set (sent (fst (axios_get ax tr (matrix_request plat this ps))))"
      using assms(2) IsArray
      by (simp add: getDistanceMatrix_def case_prod_beta split: sum.splits)
    then have "r = matrix_request plat this ps"
      by (rule axios_get_sent [OF assms(1)])
    then show ?thesis using False IsArray by simp
  qed
qed

lemma elevation_sent:
  assumes "retry ax = Some (mapbox_retry_config plat)"
    and "r \<in> set (sent (fst (getElevation plat ax tr this lon lat)))"
  shows "r = elevation_request plat this lon lat"
proof -
  have "r \<in> set (sent (fst (axios_get ax tr (elevation_request plat this lon lat))))"
    using assms(2)
    by (simp add: getElevation_def case_prod_beta Let_def split: sum.splits option.splits)
  then show ?thesis by (rule axios_get_sent [OF assms(1)])
qed

lemma sent_concat: "sent (concat xss) = concat (map sent xss)"
  by (induction xss) simp_all

lemma sent_take_drop:
  "r \<in> set (sent (take n evs)) \<or> r \<in> set (sent (drop n evs)) \<Longrightarrow> r \<in> set (sent evs)"
proof -
  have "sent evs = sent (take n evs) @ sent (drop n evs)"
    by (simp only: sent_simps(5) [symmetric] append_take_drop_id)
  then show "r \<in> set (sent (take n evs)) \<or> r \<in> set (sent (drop n evs)) \<Longrightarrow> r \<in> set (sent evs)"
    by auto
qed

lemma sent_parts:
  assumes "r \<in> set (sent (concat (map (\<lambda>(i, p). take (g i) (fst p)) (enumerate 0 ps))))
         \<or> r \<in> set (sent (concat (map (\<lambda>(i, p). drop (g i) (fst p)) (enumerate 0 ps))))"
  shows "\<exists>q\<in>set ps. r \<in> set (sent (fst q))"
proof -
  obtain x where x: "x \<in> set (enumerate 0 ps)"
    and "r \<in> set (sent (take (g (fst x)) (fst (snd x))))
         \<or> r \<in> set (sent (drop (g (fst x)) (fst (snd x))))"
    using assms by (auto simp: sent_concat case_prod_beta)
  then have "r \<in> set (sent (fst (snd x)))"
    by (rule_tac sent_take_drop)
  moreover have "snd x \<in> set ps"
    using x nth_mem [of "fst x" ps] by (auto simp: in_set_enumerate_eq)
  ultimately show ?thesis by blast
qed

lemma geocode_one_sent:
  assumes "retry ax = Some (mapbox_retry_config plat)"
    and "r \<in> set (sent (fst (geocode_one ax tr this l)))"
  shows "r = geocode_request this l"
proof -
  have "r \<in> set (sent (fst (axios_get ax tr (geocode_request this l))))"
    using assms(2) by (simp add: geocode_one_def case_prod_beta)
  then show ?thesis by (rule axios_get_sent [OF assms(1)])
qed

lemma batch_sent:
  assumes "retry ax = Some (mapbox_retry_config plat)"
    and "r \<in> set (sent (fst (batchGeocode plat ax trs first progress this arg)))"
  shows "\<exists>ls l. arg = IsArray ls \<and> l \<in> set ls \<and> r = geocode_request this l"
proof (cases arg)
  case NotArray
  then show ?thesis using assms(2) by (simp add: batchGeocode_def)
next
  case (IsArray ls)
  show ?thesis
  proof (cases "ls = []")
    case True
    then show ?thesis using assms(2) IsArray by (simp add: batchGeocode_def)
  next
    case False
    let ?ps = "map (\<lambda>(i, location). geocode_one ax (trs i) this location) (enumerate 0 ls)"
    have "r \<in> set (sent (concat (map fst ?ps)))
          \<or> r \<in> set (sent (concat (map (\<lambda>(i, p). take (progress i) (fst p)) (enumerate 0 ?ps))))
          \<or> r \<in> set (sent (concat (map (\<lambda>(i, p). drop (progress i) (fst p)) (enumerate 0 ?ps))))"
      using assms(2) IsArray False
      by (auto simp add: batchGeocode_def Let_def split: sum.splits)
    then have "\<exists>q\<in>set ?ps. r \<in> set (sent (fst q))"
    proof (elim disjE)
      assume "r \<in> set (sent (concat (map fst ?ps)))"
      then show ?thesis by (auto simp: sent_concat)
    next
      assume "r \<in> set (sent (concat (map (\<lambda>(i, p). take (progress i) (fst p))
                                        (enumerate 0 ?ps))))"
      then show ?thesis using sent_parts [of r progress ?ps] by blast
    next
      assume "r \<in> set (sent (concat (map (\<lambda>(i, p). drop (progress i) (fst p))
                                        (enumerate 0 ?ps))))"
      then show ?thesis using sent_parts [of r progress ?ps] by blast
    qed
    then obtain p where "p \<in> set (enumerate 0 ls)"
      and "r \<in> set (sent (fst (geocode_one ax (trs (fst p)) this (snd p))))"
      by (auto simp: case_prod_beta)
    then have "snd p \<in> set ls" "r = geocode_request this (snd p)"
      using geocode_one_sent [OF assms(1)] nth_mem [of "fst p" ls]
      by (auto simp: in_set_enumerate_eq)
    then show ?thesis using IsArray by blast
  qed
qed

lemma access_token_param:
  "map_of (params (route_request plat this ws)) ''access_token'' = Some (PStr (accessToken this))"
  "map_of (params (matrix_request plat this ws)) ''access_token'' = Some (PStr (accessToken this))"
  "map_of (params (elevation_request plat this lon lat)) ''access_token''
     = Some (PStr (accessToken this))"
  "map_of (params (geocode_request this l)) ''access_token'' = Some (PStr (accessToken this))"
  by (simp_all add: route_request_def matrix_request_def elevation_request_def
        geocode_request_def)

lemma constructor_rejects:
  "token = None \<or> token = Some [] \<Longrightarrow>
   MapboxService_new plat ax token =
     ([Log Err ''Mapbox access token not provided'' []],
      Inl (Error ''Mapbox access token is required''))"
  by (auto simp: MapboxService_new_def)

lemma constructor_accepts:
  "t \<noteq> [] \<Longrightarrow>
   MapboxService_new plat ax (Some t) =
     ([], Inr (\<lparr> MAPBOX_BASE_URL = ''https://api.mapbox.com'', accessToken = t \<rparr>,
               ax \<lparr> retry := Some (mapbox_retry_config plat) \<rparr>))"
  by (simp add: MapboxService_new_def)

text \<open>
  C9. The constructor fails exactly when the credential is absent or empty, and then
  with the configuration error. With a non-empty credential it succeeds, logs nothing,
  stores the credential and installs the retry policy; every request that any of the
  four methods then sends carries the credential as its \<open>access_token\<close> parameter.
\<close>

theorem credential_required:
  "((\<exists>e. snd (MapboxService_new plat ax token) = Inl e) \<longleftrightarrow> token = None \<or> token = Some [])
 \<and> (token = None \<or> token = Some [] \<longrightarrow>
       snd (MapboxService_new plat ax token) = Inl ConfigurationError)
 \<and> (\<forall>t. token = Some t \<and> t \<noteq> [] \<longrightarrow>
       (\<exists>this ax'. MapboxService_new plat ax token = ([], Inr (this, ax'))
          \<and> accessToken this = t
          \<and> retry ax' = Some (mapbox_retry_config plat)
          \<and> (\<forall>tr trs first progress ws lon lat ls ps r.
                r \<in> set (sent (fst (getOptimizedRoute plat ax' tr this ws)))
                  \<union> set (sent (fst (getElevation plat ax' tr this lon lat)))
                  \<union> set (sent (fst (batchGeocode plat ax' trs first progress this ls)))
                  \<union> set (sent (fst (getDistanceMatrix plat ax' tr this ps)))
                \<longrightarrow> map_of (params r) ''access_token'' = Some (PStr t))))"
proof (intro conjI allI impI)
  show "(\<exists>e. snd (MapboxService_new plat ax token) = Inl e) \<longleftrightarrow> token = None \<or> token = Some []"
  proof (cases "token = None \<or> token = Some []")
    case True
    then show ?thesis using constructor_rejects [OF True, of plat ax] by simp
  next
    case False
    then obtain t where "token = Some t" "t \<noteq> []" by auto
    then show ?thesis using constructor_accepts [of t plat ax] by simp
  qed
next
  assume "token = None \<or> token = Some []"
  then show "snd (MapboxService_new plat ax token) = Inl ConfigurationError"
    using constructor_rejects [of token plat ax] by (simp add: ConfigurationError_def)
next
  fix t assume t: "token = Some t \<and> t \<noteq> []"
  let ?svc = "\<lparr> MAPBOX_BASE_URL = ''https://api.mapbox.com'', accessToken = t \<rparr>"
  let ?ax = "ax \<lparr> retry := Some (mapbox_retry_config plat) \<rparr>"
  have inst: "retry ?ax = Some (mapbox_retry_config plat)" by simp
  have tok: "accessToken ?svc = t" by simp
  have "map_of (params r) ''access_token'' = Some (PStr t)"
    if mem: "r \<in> set (sent (fst (getOptimizedRoute plat ?ax tr ?svc ws)))
          \<union> set (sent (fst (getElevation plat ?ax tr ?svc lon lat)))
          \<union> set (sent (fst (batchGeocode plat ?ax trs first progress ?svc ls)))
          \<union> set (sent (fst (getDistanceMatrix plat ?ax tr ?svc ps)))"
    for tr trs first progress ws lon lat ls ps r
  proof -
    consider "r \<in> set (sent (fst (getOptimizedRoute plat ?ax tr ?svc ws)))"
      | "r \<in> set (sent (fst (getElevation plat ?ax tr ?svc lon lat)))"
      | "r \<in> set (sent (fst (batchGeocode plat ?ax trs first progress ?svc ls)))"
      | "r \<in> set (sent (fst (getDistanceMatrix plat ?ax tr ?svc ps)))"
      using mem by blast
    then show ?thesis
    proof cases
      case 1
      then obtain xs where "r = route_request plat ?svc xs"
        using route_sent [OF inst] by blast
      then show ?thesis using access_token_param(1) [of plat ?svc xs] tok by simp
    next
      case 2
      then have "r = elevation_request plat ?svc lon lat"
        by (rule elevation_sent [OF inst])
      then show ?thesis using access_token_param(3) [of plat ?svc lon lat] tok by simp
    next
      case 3
      then obtain l where "r = geocode_request ?svc l"
        using batch_sent [OF inst] by blast
      then show ?thesis using access_token_param(4) [of ?svc l] tok by simp
    next
      case 4
      then obtain xs where "r = matrix_request plat ?svc xs"
        using matrix_sent [OF inst] by blast
      then show ?thesis using access_token_param(2) [of plat ?svc xs] tok by simp
    qed
  qed
  then show "\<exists>this ax'. MapboxService_new plat ax token = ([], Inr (this, ax'))
          \<and> accessToken this = t
          \<and> retry ax' = Some (mapbox_retry_config plat)
          \<and> (\<forall>tr trs first progress ws lon lat ls ps r.
                r \<in> set (sent (fst (getOptimizedRoute plat ax' tr this ws)))
                  \<union> set (sent (fst (getElevation plat ax' tr this lon lat)))
                  \<union> set (sent (fst (batchGeocode plat ax' trs first progress this ls)))
                  \<union> set (sent (fst (getDistanceMatrix plat ax' tr this ps)))
                \<longrightarrow> map_of (params r) ''access_token'' = Some (PStr t))"
    using constructor_accepts [of t plat ax] t inst tok
    by (intro exI [of _ ?svc] exI [of _ ?ax]) blast
qed


theorem credential_required_witness:
  "snd (MapboxService_new example_platform fresh_axios None) = Inl ConfigurationError
 \<and> snd (MapboxService_new example_platform fresh_axios (Some [])) = Inl ConfigurationError
 \<and> MapboxService_new example_platform fresh_axios (Some ''pk.test'')
       = ([], Inr (example_service, example_axios))
 \<and> map (\<lambda>r. map_of (params r) ''access_token'')
       (sent (fst (getElevation example_platform example_axios (always_ok contour_body)
                     example_service 86 27)))
     = [Some (PStr ''pk.test'')]"
proof -
  note none = credential_required [of example_platform fresh_axios None,
                THEN conjunct2, THEN conjunct1, rule_format]
  note empty = credential_required [of example_platform fresh_axios "Some []",
                THEN conjunct2, THEN conjunct1, rule_format]
  note given = credential_required [of example_platform fresh_axios "Some ''pk.test''",
                THEN conjunct2, THEN conjunct2, rule_format, of "''pk.test''"]
  have a: "snd (MapboxService_new example_platform fresh_axios None) = Inl ConfigurationError"
    by (rule none) simp
  have b: "snd (MapboxService_new example_platform fresh_axios (Some [])) = Inl ConfigurationError"
    by (rule empty) simp
  have ne: "''pk.test'' \<noteq> []" by simp
  have c: "MapboxService_new example_platform fresh_axios (Some ''pk.test'')
             = ([], Inr (example_service, example_axios))"
    using constructor_accepts [OF ne, of example_platform fresh_axios]
    by (simp add: example_service_def example_axios_def fresh_axios_def)
  have "Some ''pk.test'' = Some ''pk.test'' \<and> ''pk.test'' \<noteq> []"
    using ne by simp
  from given [OF this] obtain svc ax' where
    new: "MapboxService_new example_platform fresh_axios (Some ''pk.test'') = ([], Inr (svc, ax'))"
    and all: "\<And>tr trs first progress ws lon lat ls ps r.
                r \<in> set (sent (fst (getOptimizedRoute example_platform ax' tr svc ws)))
                  \<union> set (sent (fst (getElevation example_platform ax' tr svc lon lat)))
                  \<union> set (sent (fst (batchGeocode example_platform ax' trs first progress svc ls)))
                  \<union> set (sent (fst (getDistanceMatrix example_platform ax' tr svc ps)))
                \<Longrightarrow> map_of (params r) ''access_token'' = Some (PStr ''pk.test'')"
    by (elim exE conjE) (rule that, assumption, elim allE impE, assumption+)
  have eq: "svc = example_service" "ax' = example_axios"
    using new unfolding c by simp_all
  let ?req = "elevation_request example_platform example_service 86 27"
  have s: "sent (fst (getElevation example_platform example_axios (always_ok contour_body)
                        example_service 86 27)) = [?req]"
    unfolding getElevation_def example_answered by (simp split: sum.splits option.splits)
  have d: "map_of (params ?req) ''access_token'' = Some (PStr ''pk.test'')"
    by (rule all [unfolded eq, where tr = "always_ok contour_body" and lon = 86 and lat = 27
                   and ws = NotArray and ls = NotArray and ps = NotArray])
       (simp add: s)
  show ?thesis
    using a b c d unfolding s by simp
qed

section \<open>Serialization of coordinates\<close>

lemma split_on_no_sep: "c \<notin> set x \<Longrightarrow> split_on c x = [x]"
  by (induction x) auto

lemma split_on_append: "c \<notin> set x \<Longrightarrow> split_on c (x @ c # rest) = x # split_on c rest"
  by (induction x) auto

lemma split_join:
  "xs \<noteq> [] \<Longrightarrow> \<forall>x\<in>set xs. c \<notin> set x \<Longrightarrow> split_on c (join [c] xs) = xs"
proof (induction "[c]" xs rule: join.induct)
  case 1
  then show ?case by simp
next
  case (2 x)
  then show ?case by (simp add: split_on_no_sep)
next
  case (3 x y ys)
  then show ?case by (simp add: split_on_append)
qed

lemma coordinates_path_split:
  assumes "ws \<noteq> []"
    and "\<forall>(lon, lat)\<in>set ws. \<forall>s\<in>{numberToString plat lon, numberToString plat lat}.
            CHR '','' \<notin> set s \<and> CHR '';'' \<notin> set s"
  shows "map (split_on CHR '','') (split_on CHR '';'' (coordinates_path plat ws))
           = map (\<lambda>(lon, lat). [numberToString plat lon, numberToString plat lat]) ws"
proof -
  let ?pair = "\<lambda>(lon, lat). join '','' [numberToString plat lon, numberToString plat lat]"
  have "\<forall>x\<in>set (map ?pair ws). CHR '';'' \<notin> set x"
    using assms(2) by auto
  moreover have "map ?pair ws \<noteq> []"
    using assms(1) by simp
  ultimately have "split_on CHR '';'' (join '';'' (map ?pair ws)) = map ?pair ws"
    by (rule split_join [rotated])
  moreover have "split_on CHR '','' (?pair w) = (\<lambda>(lon, lat). [numberToString plat lon, numberToString plat lat]) w"
    if "w \<in> set ws" for w
    using assms(2) that by (auto simp: split_on_append split_on_no_sep)
  ultimately show ?thesis
    by (simp add: coordinates_path_def)
qed


lemma route_sent_eq:
  "2 \<le> length ws \<Longrightarrow>
   sent (fst (getOptimizedRoute plat ax tr this (IsArray ws)))
     = sent (fst (axios_get ax tr (route_request plat this ws)))"
  by (simp add: getOptimizedRoute_def case_prod_beta split: sum.splits)

lemma matrix_sent_eq:
  "2 \<le> length ps \<Longrightarrow>
   sent (fst (getDistanceMatrix plat ax tr this (IsArray ps)))
     = sent (fst (axios_get ax tr (matrix_request plat this ps)))"
  by (simp add: getDistanceMatrix_def case_prod_beta split: sum.splits)

lemma axios_get_sent_nonempty:
  "retry ax = Some (mapbox_retry_config plat) \<Longrightarrow> sent (fst (axios_get ax tr req)) \<noteq> []"
  by (simp add: axios_get_installed loop_attempted_once)

lemma request_urls:
  "url (route_request plat this ws)
     = MAPBOX_BASE_URL this @ ''/optimized-trips/v1/mapbox/driving/'' @ coordinates_path plat ws"
  "url (matrix_request plat this ws)
     = MAPBOX_BASE_URL this @ ''/distances/v1/mapbox/driving/'' @ coordinates_path plat ws"
  by (simp_all add: route_request_def matrix_request_def)

text \<open>
  C8. For a sequence of at least two coordinates whose rendered numbers contain neither
  separator, every request \<open>getOptimizedRoute\<close> and \<open>getDistanceMatrix\<close> send has the
  path of the operation followed by the serialized coordinates, and splitting that
  segment on \<open>;\<close> and each piece on \<open>,\<close> gives back the rendered longitude and
  latitude of each coordinate, in the order of the input: nothing is reordered, added
  or dropped.
\<close>

theorem coordinates_serialized_in_order:
  assumes "retry ax = Some (mapbox_retry_config plat)"
    and "2 \<le> length ws"
    and "\<forall>(lon, lat)\<in>set ws. \<forall>s\<in>{numberToString plat lon, numberToString plat lat}.
            CHR '','' \<notin> set s \<and> CHR '';'' \<notin> set s"
  shows "sent (fst (getOptimizedRoute plat ax tr this (IsArray ws))) \<noteq> []
       \<and> (\<forall>r\<in>set (sent (fst (getOptimizedRoute plat ax tr this (IsArray ws)))).
             url r = MAPBOX_BASE_URL this @ ''/optimized-trips/v1/mapbox/driving/''
                     @ coordinates_path plat ws)
       \<and> sent (fst (getDistanceMatrix plat ax tr this (IsArray ws))) \<noteq> []
       \<and> (\<forall>r\<in>set (sent (fst (getDistanceMatrix plat ax tr this (IsArray ws)))).
             url r = MAPBOX_BASE_URL this @ ''/distances/v1/mapbox/driving/''
                     @ coordinates_path plat ws)
       \<and> map (split_on CHR '','') (split_on CHR '';'' (coordinates_path plat ws))
           = map (\<lambda>(lon, lat). [numberToString plat lon, numberToString plat lat]) ws"
proof (intro conjI ballI)
  show "sent (fst (getOptimizedRoute plat ax tr this (IsArray ws))) \<noteq> []"
    unfolding route_sent_eq [OF assms(2)] by (rule axios_get_sent_nonempty [OF assms(1)])
  show "sent (fst (getDistanceMatrix plat ax tr this (IsArray ws))) \<noteq> []"
    unfolding matrix_sent_eq [OF assms(2)] by (rule axios_get_sent_nonempty [OF assms(1)])
  show "url r = MAPBOX_BASE_URL this @ ''/optimized-trips/v1/mapbox/driving/''
                @ coordinates_path plat ws"
    if "r \<in> set (sent (fst (getOptimizedRoute plat ax tr this (IsArray ws))))" for r
  proof -
    have "r = route_request plat this ws"
      using that unfolding route_sent_eq [OF assms(2)] by (rule axios_get_sent [OF assms(1)])
    then show ?thesis by (simp only: request_urls)
  qed
  show "url r = MAPBOX_BASE_URL this @ ''/distances/v1/mapbox/driving/''
                @ coordinates_path plat ws"
    if "r \<in> set (sent (fst (getDistanceMatrix plat ax tr this (IsArray ws))))" for r
  proof -
    have "r = matrix_request plat this ws"
      using that unfolding matrix_sent_eq [OF assms(2)] by (rule axios_get_sent [OF assms(1)])
    then show ?thesis by (simp only: request_urls)
  qed
  have "ws \<noteq> []" using assms(2) by auto
  then show "map (split_on CHR '','') (split_on CHR '';'' (coordinates_path plat ws))
           = map (\<lambda>(lon, lat). [numberToString plat lon, numberToString plat lat]) ws"
    using assms(3) by (rule coordinates_path_split)
qed

theorem coordinates_serialized_in_order_witness:
  "coordinates_path example_platform [(2, 48), (13, 52)] = ''2,48;13,52''
 \<and> map (split_on CHR '','') (split_on CHR '';'' (coordinates_path example_platform [(2, 48), (13, 52)]))
     = [[''2'', ''48''], [''13'', ''52'']]
 \<and> map url (sent (fst (getOptimizedRoute example_platform example_axios (always_ok Null)
                         example_service (IsArray [(2, 48), (13, 52)]))))
     = [''https://api.mapbox.com/optimized-trips/v1/mapbox/driving/2,48;13,52'']
 \<and> map url (sent (fst (getDistanceMatrix example_platform example_axios (always_ok Null)
                         example_service (IsArray [(2, 48), (13, 52)]))))
     = [''https://api.mapbox.com/distances/v1/mapbox/driving/2,48;13,52'']"
proof -
  let ?ws = "[(2::real, 48::real), (13, 52)]"
  have n: "numberToString example_platform 2 = ''2''" "numberToString example_platform 48 = ''48''"
    "numberToString example_platform 13 = ''13''" "numberToString example_platform 52 = ''52''"
    by (simp_all add: example_platform_def decimal.simps)
  have path: "coordinates_path example_platform ?ws = ''2,48;13,52''"
    by (simp add: coordinates_path_def n)
  have h1: "retry example_axios = Some (mapbox_retry_config example_platform)"
    by (simp add: example_axios_def)
  have h2: "2 \<le> length ?ws" by simp
  have h3: "\<forall>(lon, lat)\<in>set ?ws.
              \<forall>s\<in>{numberToString example_platform lon, numberToString example_platform lat}.
                CHR '','' \<notin> set s \<and> CHR '';'' \<notin> set s"
    by (simp add: n)
  note inst = coordinates_serialized_in_order [OF h1 h2 h3, of "always_ok Null" example_service]
  have base: "MAPBOX_BASE_URL example_service = ''https://api.mapbox.com''"
    by (simp add: example_service_def)
  have route: "sent (fst (getOptimizedRoute example_platform example_axios (always_ok Null)
                            example_service (IsArray ?ws)))
                 = [route_request example_platform example_service ?ws]"
    unfolding route_ok [OF h2 example_answered] by simp
  have matrix: "sent (fst (getDistanceMatrix example_platform example_axios (always_ok Null)
                            example_service (IsArray ?ws)))
                 = [matrix_request example_platform example_service ?ws]"
    unfolding matrix_ok [OF h2 example_answered] by simp
  show ?thesis
    using inst unfolding route matrix by (simp add: path n base)
qed

section \<open>Failures: what is logged and what is thrown\<close>

lemma route_failure:
  assumes "2 \<le> length ws"
    and "snd (axios_get ax tr (route_request plat this ws)) = Inl e"
  shows "snd (getOptimizedRoute plat ax tr this (IsArray ws)) = Inl RouteOptimizationError"
    and "last (fst (getOptimizedRoute plat ax tr this (IsArray ws))) =
           Log Err (''Route optimization error: '' @ message e)
             [(''waypoints'', MCoords ws), (''status'', status_meta (AxiosError e))]"
proof -
  have "axios_get ax tr (route_request plat this ws)
          = (fst (axios_get ax tr (route_request plat this ws)), Inl e)"
    using assms(2) by (simp add: prod_eq_iff)
  note run = route_fail [OF assms(1) this]
  show "snd (getOptimizedRoute plat ax tr this (IsArray ws)) = Inl RouteOptimizationError"
    unfolding run RouteOptimizationError_def by simp
  show "last (fst (getOptimizedRoute plat ax tr this (IsArray ws))) =
           Log Err (''Route optimization error: '' @ message e)
             [(''waypoints'', MCoords ws), (''status'', status_meta (AxiosError e))]"
    unfolding run by simp
qed

lemma matrix_failure:
  assumes "2 \<le> length ps"
    and "snd (axios_get ax tr (matrix_request plat this ps)) = Inl e"
  shows "snd (getDistanceMatrix plat ax tr this (IsArray ps)) = Inl DistanceMatrixError"
    and "last (fst (getDistanceMatrix plat ax tr this (IsArray ps))) =
           Log Err (''Distance matrix error: '' @ message e)
             [(''pointCount'', MNum (length ps)), (''status'', status_meta (AxiosError e))]"
proof -
  have "axios_get ax tr (matrix_request plat this ps)
          = (fst (axios_get ax tr (matrix_request plat this ps)), Inl e)"
    using assms(2) by (simp add: prod_eq_iff)
  note run = matrix_fail [OF assms(1) this]
  show "snd (getDistanceMatrix plat ax tr this (IsArray ps)) = Inl DistanceMatrixError"
    unfolding run DistanceMatrixError_def by simp
  show "last (fst (getDistanceMatrix plat ax tr this (IsArray ps))) =
           Log Err (''Distance matrix error: '' @ message e)
             [(''pointCount'', MNum (length ps)), (''status'', status_meta (AxiosError e))]"
    unfolding run by simp
qed

lemma elevation_failure:
  assumes "snd (axios_get ax tr (elevation_request plat this lon lat)) = Inl e"
  shows "snd (getElevation plat ax tr this lon lat) = Inl ElevationLookupError"
    and "last (fst (getElevation plat ax tr this lon lat)) =
           Log Err (''Elevation fetch error: '' @ message e)
             [(''coordinates'', MStr (numberToString plat lon @ '', '' @ numberToString plat lat)),
              (''status'', status_meta (AxiosError e))]"
proof -
  have "axios_get ax tr (elevation_request plat this lon lat)
          = (fst (axios_get ax tr (elevation_request plat this lon lat)), Inl e)"
    using assms by (simp add: prod_eq_iff)
  note run = elevation_fail [OF this]
  show "snd (getElevation plat ax tr this lon lat) = Inl ElevationLookupError"
    unfolding run ElevationLookupError_def by simp
  show "last (fst (getElevation plat ax tr this lon lat)) =
           Log Err (''Elevation fetch error: '' @ message e)
             [(''coordinates'', MStr (numberToString plat lon @ '', '' @ numberToString plat lat)),
              (''status'', status_meta (AxiosError e))]"
    unfolding run by simp
qed

lemma batch_failure:
  assumes "ls \<noteq> []" and "i < length ls"
    and "snd (axios_get ax (trs i) (geocode_request this (ls ! i))) = Inl e"
  shows "snd (batchGeocode plat ax trs first progress this (IsArray ls)) = Inl GeocodingError
       \<and> (\<exists>j err. j < length ls
             \<and> snd (geocode_one ax (trs j) this (ls ! j)) = Inl err
             \<and> Log Err (''Batch geocoding error: '' @ error_message err)
                  [(''locationCount'', MNum (length ls)), (''status'', status_meta err)]
                \<in> set (fst (batchGeocode plat ax trs first progress this (IsArray ls))))"
proof -
  let ?ps = "map (\<lambda>(i, location). geocode_one ax (trs i) this location) (enumerate 0 ls)"
  have "snd (geocode_one ax (trs i) this (ls ! i)) = Inl (AxiosError e)"
    using assms(3) by (simp add: geocode_one_def case_prod_beta)
  then have nth: "map snd ?ps ! i = Inl (AxiosError e)"
    using assms(2) by (simp add: nth_enumerate_eq)
  have "i < length (map snd ?ps)"
    using assms(2) by simp
  then have "map snd ?ps ! i \<in> set (map snd ?ps)"
    by (rule nth_mem)
  then have "Inl (AxiosError e) \<in> set (map snd ?ps)"
    unfolding nth .
  then obtain e' where mem: "Inl e' \<in> set (map snd ?ps)"
    and first: "promise_all first (map snd ?ps) = Inl e'"
    using promise_all_rejects [of "AxiosError e" "map snd ?ps" first] by blast
  obtain j where j: "j < length ls" and "map snd ?ps ! j = Inl e'"
    using mem by (auto simp: in_set_conv_nth)
  then have tied: "snd (geocode_one ax (trs j) this (ls ! j)) = Inl e'"
    by (simp add: nth_enumerate_eq)
  note run = batch_rejected [OF assms(1) first, where plat = plat and progress = progress]
  have "Log Err (''Batch geocoding error: '' @ error_message e')
          [(''locationCount'', MNum (length ls)), (''status'', status_meta e')]
        \<in> set (fst (batchGeocode plat ax trs first progress this (IsArray ls)))"
    unfolding run by simp
  moreover have "snd (batchGeocode plat ax trs first progress this (IsArray ls)) = Inl GeocodingError"
    unfolding run GeocodingError_def by simp
  ultimately show ?thesis using j tied by blast
qed

lemma example_refused:
  "axios_get example_axios (always_status 400) req = ([Sent req], Inl (failed_with 400))"
proof -
  have "retry example_axios = Some (mapbox_retry_config example_platform)"
    by (simp add: example_axios_def)
  moreover have "always_status 400 req 0 = Inl (failed_with 400)"
    by (simp add: always_status_def)
  moreover have "\<not> isNetworkOrIdempotentRequestError example_platform (failed_with 400)"
    by (simp add: isNetworkOrIdempotentRequestError_def isNetworkError_def
          isIdempotentRequestError_def isRetryableError_def failed_with_def)
  moreover have "status (failed_with 400) \<noteq> Some 429"
    by (simp add: failed_with_def)
  ultimately show ?thesis by (rule not_retried_run)
qed

lemma failed_with_400:
  "message (failed_with 400) = ''Request failed with status code 400''"
  "status_meta (AxiosError (failed_with 400)) = MNum 400"
  by (simp_all add: failed_with_def decimal.simps status_meta_def)

text \<open>
  When the request of a method ends in a failure \<open>e\<close>, the method fails with its own
  fixed error, the same for every \<open>e\<close>, and logs an error-level event whose message is
  the label of the operation followed by the message of the failure and whose metadata
  carry the status of the failure (undefined when it has none). For the three methods
  with one request it is the last event. For \<open>batchGeocode\<close> the event is that of a
  request of the batch that was rejected, and requests still running may log after it.
\<close>

lemma failure_events:
  "(2 \<le> length ws \<and> snd (axios_get ax tr (route_request plat this ws)) = Inl e \<longrightarrow>
      snd (getOptimizedRoute plat ax tr this (IsArray ws)) = Inl RouteOptimizationError
    \<and> (\<exists>md. last (fst (getOptimizedRoute plat ax tr this (IsArray ws)))
                = Log Err (''Route optimization error: '' @ message e) md
            \<and> map_of md ''status'' = Some (status_meta (AxiosError e))))
 \<and> (snd (axios_get ax tr (elevation_request plat this lon lat)) = Inl e \<longrightarrow>
      snd (getElevation plat ax tr this lon lat) = Inl ElevationLookupError
    \<and> last (fst (getElevation plat ax tr this lon lat))
        = Log Err (''Elevation fetch error: '' @ message e)
            [(''coordinates'', MStr (numberToString plat lon @ '', '' @ numberToString plat lat)),
             (''status'', status_meta (AxiosError e))])
 \<and> (ls \<noteq> [] \<and> i < length ls
      \<and> snd (axios_get ax (trs i) (geocode_request this (ls ! i))) = Inl e \<longrightarrow>
      snd (batchGeocode plat ax trs first progress this (IsArray ls)) = Inl GeocodingError
    \<and> (\<exists>j err. j < length ls
          \<and> snd (geocode_one ax (trs j) this (ls ! j)) = Inl err
          \<and> Log Err (''Batch geocoding error: '' @ error_message err)
               [(''locationCount'', MNum (length ls)), (''status'', status_meta err)]
             \<in> set (fst (batchGeocode plat ax trs first progress this (IsArray ls)))))
 \<and> (2 \<le> length ps \<and> snd (axios_get ax tr (matrix_request plat this ps)) = Inl e \<longrightarrow>
      snd (getDistanceMatrix plat ax tr this (IsArray ps)) = Inl DistanceMatrixError
    \<and> last (fst (getDistanceMatrix plat ax tr this (IsArray ps)))
        = Log Err (''Distance matrix error: '' @ message e)
            [(''pointCount'', MNum (length ps)), (''status'', status_meta (AxiosError e))])"
proof (intro conjI impI; (elim conjE)?)
  assume "2 \<le> length ws" "snd (axios_get ax tr (route_request plat this ws)) = Inl e"
  note r = route_failure [OF this]
  show "snd (getOptimizedRoute plat ax tr this (IsArray ws)) = Inl RouteOptimizationError"
    by (rule r(1))
  show "\<exists>md. last (fst (getOptimizedRoute plat ax tr this (IsArray ws)))
                = Log Err (''Route optimization error: '' @ message e) md
            \<and> map_of md ''status'' = Some (status_meta (AxiosError e))"
    unfolding r(2) by simp
next
  assume "snd (axios_get ax tr (elevation_request plat this lon lat)) = Inl e"
  note r = elevation_failure [OF this]
  show "snd (getElevation plat ax tr this lon lat) = Inl ElevationLookupError"
    by (rule r(1))
  show "last (fst (getElevation plat ax tr this lon lat))
        = Log Err (''Elevation fetch error: '' @ message e)
            [(''coordinates'', MStr (numberToString plat lon @ '', '' @ numberToString plat lat)),
             (''status'', status_meta (AxiosError e))]"
    by (rule r(2))
next
  assume a: "ls \<noteq> []" "i < length ls"
    "snd (axios_get ax (trs i) (geocode_request this (ls ! i))) = Inl e"
  note r = batch_failure [where trs = trs and i = i and plat = plat and first = first
      and progress = progress, OF a]
  show "snd (batchGeocode plat ax trs first progress this (IsArray ls)) = Inl GeocodingError"
    using r by (rule conjunct1)
  show "\<exists>j err. j < length ls
          \<and> snd (geocode_one ax (trs j) this (ls ! j)) = Inl err
          \<and> Log Err (''Batch geocoding error: '' @ error_message err)
               [(''locationCount'', MNum (length ls)), (''status'', status_meta err)]
             \<in> set (fst (batchGeocode plat ax trs first progress this (IsArray ls)))"
    using r by (rule conjunct2)
next
  assume "2 \<le> length ps" "snd (axios_get ax tr (matrix_request plat this ps)) = Inl e"
  note r = matrix_failure [OF this]
  show "snd (getDistanceMatrix plat ax tr this (IsArray ps)) = Inl DistanceMatrixError"
    by (rule r(1))
  show "last (fst (getDistanceMatrix plat ax tr this (IsArray ps)))
        = Log Err (''Distance matrix error: '' @ message e)
            [(''pointCount'', MNum (length ps)), (''status'', status_meta (AxiosError e))]"
    by (rule r(2))
qed

text \<open>
  C3. The error event of \<open>getOptimizedRoute\<close> does not summarise the input by a count:
  when the provider refuses a route of two waypoints with status 400, the method sends
  one request, logs the error event with the waypoints themselves under \<open>waypoints\<close>
  and fails with its fixed error. On the same input and answer \<open>getDistanceMatrix\<close>
  logs the number of points under \<open>pointCount\<close>.
\<close>

theorem route_failure_logs_payload:
  "getOptimizedRoute example_platform example_axios (always_status 400) example_service
     (IsArray [(2, 48), (13, 52)])
     = ([Sent (route_request example_platform example_service [(2, 48), (13, 52)]),
         Log Err ''Route optimization error: Request failed with status code 400''
           [(''waypoints'', MCoords [(2, 48), (13, 52)]), (''status'', MNum 400)]],
        Inl RouteOptimizationError)
 \<and> \<not> counts_only (Log Err ''Route optimization error: Request failed with status code 400''
                      [(''waypoints'', MCoords [(2, 48), (13, 52)]), (''status'', MNum 400)])
 \<and> getDistanceMatrix example_platform example_axios (always_status 400) example_service
     (IsArray [(2, 48), (13, 52)])
     = ([Sent (matrix_request example_platform example_service [(2, 48), (13, 52)]),
         Log Err ''Distance matrix error: Request failed with status code 400''
           [(''pointCount'', MNum 2), (''status'', MNum 400)]],
        Inl DistanceMatrixError)
 \<and> counts_only (Log Err ''Distance matrix error: Request failed with status code 400''
                    [(''pointCount'', MNum 2), (''status'', MNum 400)])"
proof -
  have len: "2 \<le> length [(2::real, 48::real), (13, 52)]" by simp
  have route: "getOptimizedRoute example_platform example_axios (always_status 400) example_service
     (IsArray [(2, 48), (13, 52)])
     = ([Sent (route_request example_platform example_service [(2, 48), (13, 52)]),
         Log Err ''Route optimization error: Request failed with status code 400''
           [(''waypoints'', MCoords [(2, 48), (13, 52)]), (''status'', MNum 400)]],
        Inl RouteOptimizationError)"
    unfolding route_fail [OF len example_refused] RouteOptimizationError_def
    by (simp add: failed_with_400)
  have matrix: "getDistanceMatrix example_platform example_axios (always_status 400) example_service
     (IsArray [(2, 48), (13, 52)])
     = ([Sent (matrix_request example_platform example_service [(2, 48), (13, 52)]),
         Log Err ''Distance matrix error: Request failed with status code 400''
           [(''pointCount'', MNum 2), (''status'', MNum 400)]],
        Inl DistanceMatrixError)"
    unfolding matrix_fail [OF len example_refused] DistanceMatrixError_def
    by (simp add: failed_with_400)
  show ?thesis
    unfolding route matrix by simp
qed

section \<open>Retries\<close>

























end
